theory Spec2Isabelle
  imports Complex_Main
begin

section \<open>Offline jump detection (analysis/analyze\_jumps.py)\<close>

text \<open>
  A shallow embedding of \<^verbatim>\<open>detect_jumps_offline\<close>. Everything the function can
  raise is a value of \<open>py_error\<close>.
\<close>

subsection \<open>Floating-point values\<close>

text \<open>
  A \<^verbatim>\<open>float64\<close> of a data frame column is a number or NaN. Arithmetic on numbers
  is exact; an operation with a NaN operand gives NaN, and a comparison with a NaN operand
  is false. Rounding and the infinities are not modelled.
\<close>

datatype float64 = Num real | NaN

fun f_add :: "float64 \<Rightarrow> float64 \<Rightarrow> float64" where
  "f_add (Num a) (Num b) = Num (a + b)"
| "f_add _ _ = NaN"

fun f_sub :: "float64 \<Rightarrow> float64 \<Rightarrow> float64" where
  "f_sub (Num a) (Num b) = Num (a - b)"
| "f_sub _ _ = NaN"

fun f_mul :: "float64 \<Rightarrow> float64 \<Rightarrow> float64" where
  "f_mul (Num a) (Num b) = Num (a * b)"
| "f_mul _ _ = NaN"

text \<open>\<^verbatim>\<open>a < b\<close>, \<^verbatim>\<open>a > b\<close> and \<^verbatim>\<open>a >= b\<close>.\<close>

fun f_lt :: "float64 \<Rightarrow> float64 \<Rightarrow> bool" where
  "f_lt (Num a) (Num b) \<longleftrightarrow> a < b"
| "f_lt _ _ \<longleftrightarrow> False"

fun f_gt :: "float64 \<Rightarrow> float64 \<Rightarrow> bool" where
  "f_gt (Num a) (Num b) \<longleftrightarrow> a > b"
| "f_gt _ _ \<longleftrightarrow> False"

fun f_ge :: "float64 \<Rightarrow> float64 \<Rightarrow> bool" where
  "f_ge (Num a) (Num b) \<longleftrightarrow> a \<ge> b"
| "f_ge _ _ \<longleftrightarrow> False"

text \<open>The maximum of two values as numpy's reduction takes it: NaN when either is NaN.\<close>

fun f_max :: "float64 \<Rightarrow> float64 \<Rightarrow> float64" where
  "f_max (Num a) (Num b) = Num (max a b)"
| "f_max _ _ = NaN"

subsection \<open>Data\<close>

text \<open>
  The data frame \<^verbatim>\<open>df\<close>: one row per sample, with the three columns the
  function reads (\<^verbatim>\<open>df["UserAccel_Mag"]\<close>, \<^verbatim>\<open>df["RotationRate_Z"]\<close>,
  \<^verbatim>\<open>df["Time_s"]\<close>). The columns of a data frame have the same length.
\<close>

record sample_row =
  Time_s :: float64
  UserAccel_Mag :: float64
  RotationRate_Z :: float64

type_synonym dataframe = "sample_row list"

text \<open>The keyword parameters of \<^verbatim>\<open>detect_jumps_offline\<close>, each a number.\<close>

record thresholds =
  takeoff_threshold :: real
  landing_threshold :: real
  min_airtime_s :: real
  freefall_ceiling :: real
  sample_rate :: real

text \<open>The dictionary appended to \<^verbatim>\<open>jumps\<close> (lines 129--138).\<close>

record jump =
  start_idx :: nat
  end_idx :: nat
  start_time :: float64
  end_time :: float64
  duration_s :: float64
  yaw_degrees :: float64
  peak_accel :: float64
  landing_impact :: float64

text \<open>The string-valued variable \<^verbatim>\<open>state\<close> (line 97).\<close>

datatype phase = ground | potential_takeoff | airborne

text \<open>The local variables the loop reads and writes (lines 96--99).\<close>

record loop_state =
  state :: phase
  jump_start_idx :: nat
  accumulated_yaw :: float64
  jumps :: "jump list"

datatype py_error = IndexError | ZeroDivisionError | ValueError

subsection \<open>Primitive operations\<close>

definition and_then :: "'e + 'a \<Rightarrow> ('a \<Rightarrow> 'e + 'b) \<Rightarrow> 'e + 'b" where
  "and_then r f = (case r of Inl e \<Rightarrow> Inl e | Inr v \<Rightarrow> f v)"

text \<open>\<^verbatim>\<open>xs[i]\<close> for an index that is not negative: out of range raises.\<close>

definition item :: "'a list \<Rightarrow> nat \<Rightarrow> py_error + 'a" where
  "item xs i = (if i < length xs then Inr (xs ! i) else Inl IndexError)"

text \<open>\<^verbatim>\<open>xs[a:b]\<close> for bounds that are not negative: the bounds are clipped.\<close>

definition slice :: "'a list \<Rightarrow> nat \<Rightarrow> nat \<Rightarrow> 'a list" where
  "slice xs a b = take (b - a) (drop a xs)"

text \<open>
  \<^verbatim>\<open>xs.max()\<close>: numpy raises ValueError on an empty array, and returns NaN when
  the array holds a NaN.
\<close>

fun array_max :: "float64 list \<Rightarrow> py_error + float64" where
  "array_max [] = Inl ValueError"
| "array_max (x # xs) = Inr (fold f_max xs x)"

text \<open>\<^verbatim>\<open>a / b\<close> on Python floats that are numbers.\<close>

definition py_div :: "real \<Rightarrow> real \<Rightarrow> py_error + float64" where
  "py_div a b = (if b = 0 then Inl ZeroDivisionError else Inr (Num (a / b)))"

text \<open>\<^verbatim>\<open>np.degrees\<close>.\<close>

definition degrees :: "float64 \<Rightarrow> float64" where
  "degrees x = f_mul x (Num (180 / pi))"

subsection \<open>The loop of \<^verbatim>\<open>detect_jumps_offline\<close>\<close>

text \<open>
  Lines 109 and 120:
  \<^verbatim>\<open>dt = timestamps[i] - timestamps[i - 1] if i > 0 else 1.0 / sample_rate\<close>.
\<close>

definition step_dt :: "thresholds \<Rightarrow> float64 list \<Rightarrow> nat \<Rightarrow> py_error + float64" where
  "step_dt cfg timestamps i =
     (if i > 0
      then and_then (item timestamps i) (\<lambda>t1.
           and_then (item timestamps (i - 1)) (\<lambda>t0. Inr (f_sub t1 t0)))
      else py_div 1 (sample_rate cfg))"

text \<open>The event built at lines 127--138.\<close>

definition make_jump ::
  "float64 list \<Rightarrow> float64 list \<Rightarrow> nat \<Rightarrow> nat \<Rightarrow> float64 \<Rightarrow> float64 \<Rightarrow> py_error + jump" where
  "make_jump accel_mag timestamps start i elapsed yaw =
     and_then (array_max (slice accel_mag start (i + 1))) (\<lambda>peak.
     and_then (item timestamps start) (\<lambda>t0.
     and_then (item timestamps i) (\<lambda>t1.
     and_then (item accel_mag i) (\<lambda>a.
       Inr \<lparr>start_idx = start, end_idx = i, start_time = t0, end_time = t1,
            duration_s = elapsed, yaw_degrees = degrees yaw, peak_accel = peak,
            landing_impact = a\<rparr>))))"

text \<open>One iteration of the loop (lines 102--142) at index \<open>i\<close>.\<close>

definition loop_body :: "thresholds \<Rightarrow> dataframe \<Rightarrow> nat \<Rightarrow> loop_state \<Rightarrow> py_error + loop_state" where
  "loop_body cfg df i st =
     (let accel_mag = map UserAccel_Mag df;
          rotation_z = map RotationRate_Z df;
          timestamps = map Time_s df
      in case state st of
        ground \<Rightarrow>
          and_then (item accel_mag i) (\<lambda>a.
            if f_gt a (Num (takeoff_threshold cfg))
            then Inr (st\<lparr>state := potential_takeoff, jump_start_idx := i,
                         accumulated_yaw := Num 0\<rparr>)
            else Inr st)
      | potential_takeoff \<Rightarrow>
          and_then (step_dt cfg timestamps i) (\<lambda>dt.
          and_then (item rotation_z i) (\<lambda>rz.
          and_then (item accel_mag i) (\<lambda>a.
          and_then (item timestamps i) (\<lambda>t1.
          and_then (item timestamps (jump_start_idx st)) (\<lambda>t0.
            let st1 = st\<lparr>accumulated_yaw := f_add (accumulated_yaw st) (f_mul rz dt)\<rparr>;
                st2 = (if f_lt a (Num (freefall_ceiling cfg)) then st1\<lparr>state := airborne\<rparr>
                       else st1);
                elapsed = f_sub t1 t0
            in Inr (if f_gt elapsed (Num 0.5) \<and> f_gt a (Num (takeoff_threshold cfg))
                    then st2\<lparr>state := ground\<rparr> else st2))))))
      | airborne \<Rightarrow>
          and_then (step_dt cfg timestamps i) (\<lambda>dt.
          and_then (item rotation_z i) (\<lambda>rz.
          and_then (item timestamps i) (\<lambda>t1.
          and_then (item timestamps (jump_start_idx st)) (\<lambda>t0.
          and_then (item accel_mag i) (\<lambda>a.
            let st1 = st\<lparr>accumulated_yaw := f_add (accumulated_yaw st) (f_mul rz dt)\<rparr>;
                elapsed = f_sub t1 t0
            in and_then
                 (if f_gt a (Num (landing_threshold cfg))
                     \<and> f_gt elapsed (Num (min_airtime_s cfg * 0.5))
                  then and_then
                         (if f_ge elapsed (Num (min_airtime_s cfg))
                          then and_then
                                 (make_jump accel_mag timestamps (jump_start_idx st1) i elapsed
                                    (accumulated_yaw st1))
                                 (\<lambda>j. Inr (st1\<lparr>jumps := jumps st1 @ [j]\<rparr>))
                          else Inr st1)
                         (\<lambda>st2. Inr (st2\<lparr>state := ground\<rparr>))
                  else Inr st1)
                 (\<lambda>st3. Inr (if f_gt elapsed (Num 5.0) then st3\<lparr>state := ground\<rparr>
                              else st3))))))))"

text \<open>\<^verbatim>\<open>for i in range(len(accel_mag))\<close>: the body at each index in turn; an error ends the run.\<close>

fun run_loop :: "thresholds \<Rightarrow> dataframe \<Rightarrow> nat list \<Rightarrow> loop_state \<Rightarrow> py_error + loop_state" where
  "run_loop cfg df [] st = Inr st"
| "run_loop cfg df (i # is) st = and_then (loop_body cfg df i st) (run_loop cfg df is)"

text \<open>The values of the locals before the loop (lines 96--99).\<close>

definition init_state :: loop_state where
  "init_state = \<lparr>state = ground, jump_start_idx = 0, accumulated_yaw = Num 0, jumps = []\<rparr>"

definition detect_jumps_offline :: "dataframe \<Rightarrow> thresholds \<Rightarrow> py_error + jump list" where
  "detect_jumps_offline df cfg =
     and_then (run_loop cfg df [0..<length df] init_state) (\<lambda>st. Inr (jumps st))"

text \<open>The default values of the keyword parameters (lines 81--85).\<close>

definition default_thresholds :: thresholds where
  "default_thresholds =
     \<lparr>takeoff_threshold = 1.5, landing_threshold = 2.5, min_airtime_s = 0.2,
      freefall_ceiling = 0.4, sample_rate = 50\<rparr>"

subsection \<open>Calls in a frame that is not fresh\<close>




subsection \<open>Notions used in the statements\<close>

text \<open>A configuration all of whose values are strictly positive.\<close>

definition positive :: "thresholds \<Rightarrow> bool" where
  "positive cfg \<longleftrightarrow>
     0 < takeoff_threshold cfg \<and> 0 < landing_threshold cfg \<and> 0 < min_airtime_s cfg \<and>
     0 < freefall_ceiling cfg \<and> 0 < sample_rate cfg"

text \<open>
  The run over \<open>df\<close> arrives at index \<open>i\<close> with the locals \<open>st\<close>: the iterations
  at the indices below \<open>i\<close> have been executed, none has raised.
\<close>

definition reaches :: "thresholds \<Rightarrow> dataframe \<Rightarrow> nat \<Rightarrow> loop_state \<Rightarrow> bool" where
  "reaches cfg df i st \<longleftrightarrow>
     i \<le> length df \<and> run_loop cfg df [0..<i] init_state = Inr st"

text \<open>
  The time step and the elapsed time the body computes at index \<open>i\<close>, and the locals
  after \<^verbatim>\<open>accumulated_yaw += rotation_z[i] * dt\<close>.
\<close>

definition dt_at :: "dataframe \<Rightarrow> nat \<Rightarrow> float64" where
  "dt_at df i = f_sub (Time_s (df ! i)) (Time_s (df ! (i - 1)))"

definition elapsed_at :: "dataframe \<Rightarrow> loop_state \<Rightarrow> nat \<Rightarrow> float64" where
  "elapsed_at df st i = f_sub (Time_s (df ! i)) (Time_s (df ! jump_start_idx st))"

definition add_yaw :: "dataframe \<Rightarrow> nat \<Rightarrow> loop_state \<Rightarrow> loop_state" where
  "add_yaw df i st =
     st\<lparr>accumulated_yaw :=
          f_add (accumulated_yaw st) (f_mul (RotationRate_Z (df ! i)) (dt_at df i))\<rparr>"

text \<open>
  The number a value holds, and what \<^verbatim>\<open>max()\<close> gives on the acceleration
  magnitudes at the indices from \<open>a\<close> to \<open>b\<close> inclusive: NaN when one of them is NaN,
  and their maximum otherwise.
\<close>

fun num_of :: "float64 \<Rightarrow> real" where
  "num_of (Num a) = a"
| "num_of NaN = 0"

definition window_has_nan :: "dataframe \<Rightarrow> nat \<Rightarrow> nat \<Rightarrow> bool" where
  "window_has_nan df a b \<longleftrightarrow> (\<exists>k. a \<le> k \<and> k \<le> b \<and> UserAccel_Mag (df ! k) = NaN)"

definition window_max :: "dataframe \<Rightarrow> nat \<Rightarrow> nat \<Rightarrow> float64" where
  "window_max df a b =
     (if window_has_nan df a b then NaN
      else Num (Max ((\<lambda>k. num_of (UserAccel_Mag (df ! k))) ` {a..b})))"

text \<open>The event appended at index \<open>i\<close>.\<close>

definition landing_event :: "dataframe \<Rightarrow> nat \<Rightarrow> loop_state \<Rightarrow> jump" where
  "landing_event df i st =
     \<lparr>start_idx = jump_start_idx st, end_idx = i,
      start_time = Time_s (df ! jump_start_idx st), end_time = Time_s (df ! i),
      duration_s = elapsed_at df st i,
      yaw_degrees = degrees (accumulated_yaw (add_yaw df i st)),
      peak_accel = window_max df (jump_start_idx st) i,
      landing_impact = UserAccel_Mag (df ! i)\<rparr>"

text \<open>What every appended event satisfies, and what holds of the locals before index \<open>n\<close>.\<close>

definition event_ok :: "thresholds \<Rightarrow> dataframe \<Rightarrow> jump \<Rightarrow> bool" where
  "event_ok cfg df j \<longleftrightarrow>
     start_idx j < end_idx j \<and> end_idx j < length df \<and>
     start_time j = Time_s (df ! start_idx j) \<and>
     end_time j = Time_s (df ! end_idx j) \<and>
     duration_s j = f_sub (end_time j) (start_time j) \<and>
     f_ge (duration_s j) (Num (min_airtime_s cfg)) \<and>
     peak_accel j = window_max df (start_idx j) (end_idx j) \<and>
     landing_impact j = UserAccel_Mag (df ! end_idx j) \<and>
     f_gt (UserAccel_Mag (df ! start_idx j)) (Num (takeoff_threshold cfg)) \<and>
     f_gt (UserAccel_Mag (df ! end_idx j)) (Num (landing_threshold cfg))"

definition loop_inv :: "thresholds \<Rightarrow> dataframe \<Rightarrow> nat \<Rightarrow> loop_state \<Rightarrow> bool" where
  "loop_inv cfg df n st \<longleftrightarrow>
     (state st \<noteq> ground \<longrightarrow>
        jump_start_idx st < n \<and> (\<forall>j \<in> set (jumps st). end_idx j < jump_start_idx st) \<and>
        f_gt (UserAccel_Mag (df ! jump_start_idx st)) (Num (takeoff_threshold cfg))) \<and>
     (\<forall>j \<in> set (jumps st). event_ok cfg df j \<and> end_idx j < n) \<and>
     sorted_wrt (\<lambda>a b. end_idx a < start_idx b) (jumps st)"

text \<open>
  The conditions of lines 119, 125 and 126 under which the iteration at index \<open>i\<close>
  appends an event.
\<close>

definition confirms :: "thresholds \<Rightarrow> dataframe \<Rightarrow> nat \<Rightarrow> loop_state \<Rightarrow> bool" where
  "confirms cfg df i st \<longleftrightarrow>
     state st = airborne \<and> f_gt (UserAccel_Mag (df ! i)) (Num (landing_threshold cfg)) \<and>
     f_gt (elapsed_at df st i) (Num (min_airtime_s cfg * 0.5)) \<and>
     f_ge (elapsed_at df st i) (Num (min_airtime_s cfg))"

text \<open>Time stamps that are numbers and do not decrease.\<close>

definition non_decreasing :: "float64 list \<Rightarrow> bool" where
  "non_decreasing ts \<longleftrightarrow> sorted_wrt (\<lambda>a b. f_ge b a) ts"


subsection \<open>Sample traces\<close>

text \<open>
  A take-off at index 0, free fall at index 1 and an impact at index 2, 0.4 s after the
  take-off; variants of it; and configurations that are not positive, or have the
  take-off threshold below the free-fall ceiling.
\<close>

definition row :: "real \<Rightarrow> real \<Rightarrow> real \<Rightarrow> sample_row" where
  "row t a r = \<lparr>Time_s = Num t, UserAccel_Mag = Num a, RotationRate_Z = Num r\<rparr>"

definition jump_trace :: dataframe where
  "jump_trace = [row 0 3 0, row 0.1 0.1 0, row 0.4 4 0]"

definition quiet_trace :: dataframe where
  "quiet_trace = [row 0 1 0, row 0.02 1.5 2]"

definition negative_thresholds :: thresholds where
  "negative_thresholds =
     \<lparr>takeoff_threshold = - 1, landing_threshold = - 1, min_airtime_s = - 1,
      freefall_ceiling = - 1, sample_rate = 0\<rparr>"

definition overlap_thresholds :: thresholds where
  "overlap_thresholds =
     \<lparr>takeoff_threshold = 0.3, landing_threshold = 2.5, min_airtime_s = 0.2,
      freefall_ceiling = 0.4, sample_rate = 50\<rparr>"

definition overlap_trace :: dataframe where
  "overlap_trace = [row 0 1 0, row 0.6 0.35 0]"

definition half_trace :: dataframe where
  "half_trace = [row 0 3 0, row 0.05 0.1 0, row 0.1 4 0]"

definition plateau_trace :: dataframe where
  "plateau_trace = [row 0 3 0, row 1 1 0, row 7 1 0]"

definition boundary_trace :: dataframe where
  "boundary_trace = [row 0 3 0, row 0.1 0.1 0, row 0.2 4 0]"

definition short_trace :: dataframe where
  "short_trace = [row 0 3 0, row 0.1 0.1 0, row 0.15 4 0]"

definition two_jump_trace :: dataframe where
  "two_jump_trace =
     [row 0 3 0, row 0.1 0.1 0, row 0.4 4 0, row 1 5 0, row 1.1 0.2 0, row 1.5 3 0]"

definition abandon_trace :: dataframe where
  "abandon_trace = [row 0 1 0, row 0.1 2 0, row 0.7 2 1]"

text \<open>The trace \<open>jump_trace\<close> with a NaN magnitude between the free fall and the impact.\<close>

definition nan_trace :: dataframe where
  "nan_trace =
     [row 0 3 0, row 0.1 0.1 0,
      \<lparr>Time_s = Num 0.2, UserAccel_Mag = NaN, RotationRate_Z = Num 0\<rparr>,
      row 0.4 4 0]"


section \<open>The loop body, case by case\<close>

lemma item_map: "i < length df \<Longrightarrow> item (map f df) i = Inr (f (df ! i))"
  by (simp add: item_def)

lemma step_dt_ok:
  "0 < i \<Longrightarrow> i < length df \<Longrightarrow> step_dt cfg (map Time_s df) i = Inr (dt_at df i)"
  by (simp add: step_dt_def item_def and_then_def dt_at_def)

lemma set_slice: "a \<le> i \<Longrightarrow> i < length xs \<Longrightarrow> set (slice xs a (Suc i)) = (\<lambda>k. xs ! k) ` {a..i}"
proof -
  assume a: "a \<le> i" "i < length xs"
  have "slice xs a (Suc i) = map (\<lambda>k. xs ! k) [a..<Suc i]"
    unfolding slice_def using a
    by (intro nth_equalityI) (auto simp del: upt_Suc)
  then show ?thesis by (simp add: atLeastLessThanSuc_atLeastAtMost del: upt_Suc)
qed

lemma f_max_NaN_right: "f_max x NaN = NaN"
  by (cases x) simp_all

lemma fold_f_max_NaN: "fold f_max xs NaN = NaN"
  by (induction xs) (simp_all add: f_max_NaN_right)

lemma fold_f_max_has_nan: "NaN \<in> set xs \<Longrightarrow> fold f_max xs x = NaN"
proof (induction xs arbitrary: x)
  case Nil
  then show ?case by simp
next
  case (Cons y ys)
  show ?case
  proof (cases "y = NaN")
    case True
    then show ?thesis by (simp add: fold_f_max_NaN)
  next
    case False
    with Cons.prems have "NaN \<in> set ys" by simp
    then show ?thesis by (simp add: Cons.IH)
  qed
qed

lemma fold_f_max_nums:
  "NaN \<notin> set xs \<Longrightarrow> fold f_max xs (Num a) = Num (fold max (map num_of xs) a)"
proof (induction xs arbitrary: a)
  case Nil
  then show ?case by simp
next
  case (Cons y ys)
  then obtain b where y: "y = Num b" by (cases y) simp_all
  from Cons.prems have "NaN \<notin> set ys" by simp
  from Cons.IH [OF this, of "max b a"] y show ?case by simp
qed

lemma array_max_has_nan: "NaN \<in> set xs \<Longrightarrow> array_max xs = Inr NaN"
proof (cases xs)
  case Nil
  then show "NaN \<in> set xs \<Longrightarrow> ?thesis" by simp
next
  case (Cons y ys)
  assume n: "NaN \<in> set xs"
  show ?thesis
  proof (cases "y = NaN")
    case True
    with Cons show ?thesis by (simp add: fold_f_max_NaN)
  next
    case False
    with n Cons have "NaN \<in> set ys" by simp
    with Cons show ?thesis by (simp add: fold_f_max_has_nan)
  qed
qed

lemma array_max_nums:
  assumes "xs \<noteq> []" "NaN \<notin> set xs"
  shows "array_max xs = Inr (Num (Max (num_of ` set xs)))"
proof (cases xs)
  case Nil
  with assms show ?thesis by simp
next
  case (Cons y ys)
  with assms(2) obtain b where y: "y = Num b" by (cases y) simp_all
  from assms(2) Cons have ys: "NaN \<notin> set ys" by simp
  have "Max (set (b # map num_of ys)) = fold max (map num_of ys) b"
    by (rule Max.set_eq_fold)
  with Cons y fold_f_max_nums [OF ys, of b] show ?thesis by simp
qed

lemma array_max_slice:
  assumes "a \<le> i" "i < length df"
  shows "array_max (slice (map UserAccel_Mag df) a (Suc i)) = Inr (window_max df a i)"
proof -
  let ?w = "slice (map UserAccel_Mag df) a (Suc i)"
  have s: "set ?w = (\<lambda>k. map UserAccel_Mag df ! k) ` {a..i}"
    using assms by (intro set_slice) simp_all
  have "(\<lambda>k. map UserAccel_Mag df ! k) ` {a..i} = (\<lambda>k. UserAccel_Mag (df ! k)) ` {a..i}"
    using assms by (intro image_cong) simp_all
  with s have s': "set ?w = (\<lambda>k. UserAccel_Mag (df ! k)) ` {a..i}"
    by simp
  have ne: "?w \<noteq> []"
  proof
    assume "?w = []"
    with s' have "(\<lambda>k. UserAccel_Mag (df ! k)) ` {a..i} = {}" by simp
    with assms(1) show False by simp
  qed
  have nan: "NaN \<in> set ?w \<longleftrightarrow> window_has_nan df a i"
    unfolding s' window_has_nan_def by (force simp: image_iff)
  show ?thesis
  proof (cases "window_has_nan df a i")
    case True
    with nan show ?thesis by (simp add: array_max_has_nan window_max_def)
  next
    case False
    with nan have "NaN \<notin> set ?w" by simp
    from array_max_nums [OF ne this] False show ?thesis
      by (simp add: s' window_max_def image_image)
  qed
qed

lemma make_jump_ok:
  assumes "jump_start_idx st \<le> i" "i < length df"
  shows "make_jump (map UserAccel_Mag df) (map Time_s df) (jump_start_idx st) i
           (elapsed_at df st i) (accumulated_yaw (add_yaw df i st))
         = Inr (landing_event df i st)"
  using assms
  by (simp add: make_jump_def array_max_slice item_map and_then_def landing_event_def)

lemma loop_body_ground:
  assumes "state st = ground" "i < length df"
  shows "loop_body cfg df i st =
     Inr (if f_gt (UserAccel_Mag (df ! i)) (Num (takeoff_threshold cfg))
          then st\<lparr>state := potential_takeoff, jump_start_idx := i, accumulated_yaw := Num 0\<rparr>
          else st)"
  using assms by (simp add: loop_body_def item_map and_then_def)

lemma loop_body_potential_takeoff:
  assumes "state st = potential_takeoff" "0 < i" "i < length df" "jump_start_idx st < length df"
  shows "loop_body cfg df i st =
     Inr (let st1 = add_yaw df i st;
              st2 = (if f_lt (UserAccel_Mag (df ! i)) (Num (freefall_ceiling cfg))
                     then st1\<lparr>state := airborne\<rparr> else st1)
          in if f_gt (elapsed_at df st i) (Num 0.5)
                \<and> f_gt (UserAccel_Mag (df ! i)) (Num (takeoff_threshold cfg))
             then st2\<lparr>state := ground\<rparr> else st2)"
  using assms
  by (simp add: loop_body_def item_map step_dt_ok and_then_def add_yaw_def elapsed_at_def Let_def)

lemma loop_body_airborne:
  assumes "state st = airborne" "0 < i" "i < length df" "jump_start_idx st \<le> i"
  shows "loop_body cfg df i st =
     Inr (let st1 = add_yaw df i st;
              st3 = (if f_gt (UserAccel_Mag (df ! i)) (Num (landing_threshold cfg))
                        \<and> f_gt (elapsed_at df st i) (Num (min_airtime_s cfg * 0.5))
                     then (if f_ge (elapsed_at df st i) (Num (min_airtime_s cfg))
                           then st1\<lparr>jumps := jumps st1 @ [landing_event df i st]\<rparr>
                           else st1)\<lparr>state := ground\<rparr>
                     else st1)
          in if f_gt (elapsed_at df st i) (Num 5.0) then st3\<lparr>state := ground\<rparr> else st3)"
proof -
  have mj: "make_jump (map UserAccel_Mag df) (map Time_s df) (jump_start_idx st) i
           (f_sub (Time_s (df ! i)) (Time_s (df ! jump_start_idx st)))
           (f_add (accumulated_yaw st) (f_mul (RotationRate_Z (df ! i)) (dt_at df i)))
         = Inr (landing_event df i st)"
    using make_jump_ok[OF assms(4,3)] by (simp add: elapsed_at_def add_yaw_def)
  show ?thesis using assms
    by (simp add: loop_body_def item_map step_dt_ok and_then_def mj Let_def elapsed_at_def add_yaw_def)
qed

section \<open>The loop invariant\<close>

lemma loop_inv_init: "loop_inv cfg df 0 init_state"
  by (simp add: loop_inv_def init_state_def)

lemma landing_event_ok:
  assumes "jump_start_idx st < i" "i < length df"
    and "f_ge (elapsed_at df st i) (Num (min_airtime_s cfg))"
    and "f_gt (UserAccel_Mag (df ! jump_start_idx st)) (Num (takeoff_threshold cfg))"
    and "f_gt (UserAccel_Mag (df ! i)) (Num (landing_threshold cfg))"
  shows "event_ok cfg df (landing_event df i st)"
  using assms by (simp add: event_ok_def landing_event_def elapsed_at_def)

lemma loop_body_inv:
  assumes "i < length df" "loop_inv cfg df i st"
  shows "\<exists>st'. loop_body cfg df i st = Inr st' \<and> loop_inv cfg df (Suc i) st'"
proof (cases "state st")
  case ground
  have "loop_inv cfg df (Suc i)
          (st\<lparr>state := potential_takeoff, jump_start_idx := i, accumulated_yaw := Num 0\<rparr>)"
    if "f_gt (UserAccel_Mag (df ! i)) (Num (takeoff_threshold cfg))"
    using assms(2) that by (auto simp: loop_inv_def)
  moreover have "loop_inv cfg df (Suc i) st"
    using assms(2) ground by (auto simp: loop_inv_def)
  ultimately show ?thesis
    using loop_body_ground [OF ground assms(1), of cfg] by simp
next
  case potential_takeoff
  with assms(2) have lt: "jump_start_idx st < i"
    and before: "\<forall>j \<in> set (jumps st). end_idx j < jump_start_idx st"
    by (simp_all add: loop_inv_def)
  from lt assms(1) have pos: "0 < i" and inr: "jump_start_idx st < length df" by simp_all
  have keep: "loop_inv cfg df (Suc i) (add_yaw df i st\<lparr>state := s\<rparr>)" for s
    using assms(2) lt before potential_takeoff by (auto simp: loop_inv_def add_yaw_def)
  have keep': "loop_inv cfg df (Suc i) (add_yaw df i st)"
    using keep [of "state st"] by (simp add: add_yaw_def)
  show ?thesis
    using loop_body_potential_takeoff [OF potential_takeoff pos assms(1) inr, of cfg] keep keep'
    by (simp add: Let_def)
next
  case airborne
  with assms(2) have lt: "jump_start_idx st < i"
    and before: "\<forall>j \<in> set (jumps st). end_idx j < jump_start_idx st"
    and start: "f_gt (UserAccel_Mag (df ! jump_start_idx st)) (Num (takeoff_threshold cfg))"
    by (simp_all add: loop_inv_def)
  from lt have pos: "0 < i" and le: "jump_start_idx st \<le> i" by simp_all
  have keep: "loop_inv cfg df (Suc i) (add_yaw df i st\<lparr>state := s\<rparr>)" for s
    using assms(2) lt before airborne by (auto simp: loop_inv_def add_yaw_def)
  have keep': "loop_inv cfg df (Suc i) (add_yaw df i st)"
    using keep [of "state st"] by (simp add: add_yaw_def)
  have emit: "loop_inv cfg df (Suc i)
       (add_yaw df i st\<lparr>jumps := jumps (add_yaw df i st) @ [landing_event df i st], state := ground\<rparr>)"
    if "f_ge (elapsed_at df st i) (Num (min_airtime_s cfg))"
      and "f_gt (UserAccel_Mag (df ! i)) (Num (landing_threshold cfg))"
  proof -
    have ok: "event_ok cfg df (landing_event df i st)"
      using landing_event_ok [OF lt assms(1) that(1) start that(2)] .
    have srt: "sorted_wrt (\<lambda>a b. end_idx a < start_idx b) (jumps st @ [landing_event df i st])"
      using assms(2) before by (simp add: sorted_wrt_append loop_inv_def landing_event_def)
    show ?thesis
      using assms(2) ok srt
      by (auto simp: loop_inv_def add_yaw_def landing_event_def)
  qed
  show ?thesis
    using loop_body_airborne [OF airborne pos assms(1) le, of cfg] keep keep' emit
    by (simp add: Let_def)
qed

lemma run_loop_append:
  "run_loop cfg df (xs @ ys) st = and_then (run_loop cfg df xs st) (run_loop cfg df ys)"
  by (induction xs arbitrary: st) (simp_all add: and_then_def split: sum.splits)

lemma run_loop_inv:
  assumes "n \<le> length df"
  shows "\<exists>st. run_loop cfg df [0..<n] init_state = Inr st \<and> loop_inv cfg df n st"
  using assms
proof (induction n)
  case 0
  then show ?case by (simp add: loop_inv_init)
next
  case (Suc n)
  then obtain st where st: "run_loop cfg df [0..<n] init_state = Inr st" "loop_inv cfg df n st"
    by auto
  from Suc.prems have "n < length df" by simp
  from loop_body_inv [OF this st(2)] obtain st'
    where "loop_body cfg df n st = Inr st'" "loop_inv cfg df (Suc n) st'" by blast
  with st(1) show ?case
    by (simp add: run_loop_append and_then_def)
qed

lemma detect_jumps_offline_inv:
  "\<exists>st. detect_jumps_offline df cfg = Inr (jumps st) \<and> loop_inv cfg df (length df) st"
  using run_loop_inv [of "length df" df cfg]
  by (auto simp: detect_jumps_offline_def and_then_def)

section \<open>Reaching an index\<close>

lemma reaches_inv: "reaches cfg df i st \<Longrightarrow> loop_inv cfg df i st"
  using run_loop_inv [of i df cfg] by (auto simp: reaches_def)

lemma reaches_step:
  assumes "reaches cfg df i st" "i < length df"
  shows "\<exists>st'. loop_body cfg df i st = Inr st' \<and> reaches cfg df (Suc i) st'"
proof -
  from loop_body_inv [OF assms(2) reaches_inv [OF assms(1)]]
  obtain st' where "loop_body cfg df i st = Inr st'" by blast
  with assms show ?thesis
    by (simp add: reaches_def run_loop_append and_then_def)
qed

lemma reaches_total: "n \<le> length df \<Longrightarrow> \<exists>st. reaches cfg df n st"
  using run_loop_inv [of n df cfg] by (auto simp: reaches_def)

lemma detect_jumps_offline_reaches:
  "reaches cfg df (length df) st \<Longrightarrow> detect_jumps_offline df cfg = Inr (jumps st)"
  by (simp add: reaches_def detect_jumps_offline_def and_then_def)

lemma run_loop_quiet:
  assumes "\<forall>i \<in> set ixs. i < length df \<and>
             \<not> f_gt (UserAccel_Mag (df ! i)) (Num (takeoff_threshold cfg))"
    and "state st = ground"
  shows "run_loop cfg df ixs st = Inr st"
  using assms
  by (induction ixs) (simp_all add: loop_body_ground and_then_def)

lemma reaches_not_ground:
  "reaches cfg df i st \<Longrightarrow> state st \<noteq> ground \<Longrightarrow> jump_start_idx st < i"
  using reaches_inv [of cfg df i st] by (simp add: loop_inv_def)

lemma reaches_potential_takeoff:
  assumes "reaches cfg df i st" "i < length df" "state st = potential_takeoff"
  shows "loop_body cfg df i st =
     Inr (let st1 = add_yaw df i st;
              st2 = (if f_lt (UserAccel_Mag (df ! i)) (Num (freefall_ceiling cfg))
                     then st1\<lparr>state := airborne\<rparr> else st1)
          in if f_gt (elapsed_at df st i) (Num 0.5)
                \<and> f_gt (UserAccel_Mag (df ! i)) (Num (takeoff_threshold cfg))
             then st2\<lparr>state := ground\<rparr> else st2)"
proof -
  have "jump_start_idx st < i" using reaches_not_ground [OF assms(1)] assms(3) by simp
  with assms(2) have "0 < i" "jump_start_idx st < length df" by simp_all
  with assms show ?thesis by (intro loop_body_potential_takeoff)
qed

lemma reaches_airborne:
  assumes "reaches cfg df i st" "i < length df" "state st = airborne"
  shows "loop_body cfg df i st =
     Inr (let st1 = add_yaw df i st;
              st3 = (if f_gt (UserAccel_Mag (df ! i)) (Num (landing_threshold cfg))
                        \<and> f_gt (elapsed_at df st i) (Num (min_airtime_s cfg * 0.5))
                     then (if f_ge (elapsed_at df st i) (Num (min_airtime_s cfg))
                           then st1\<lparr>jumps := jumps st1 @ [landing_event df i st]\<rparr>
                           else st1)\<lparr>state := ground\<rparr>
                     else st1)
          in if f_gt (elapsed_at df st i) (Num 5.0) then st3\<lparr>state := ground\<rparr> else st3)"
proof -
  have "jump_start_idx st < i" using reaches_not_ground [OF assms(1)] assms(3) by simp
  then have "0 < i" "jump_start_idx st \<le> i" by simp_all
  with assms show ?thesis by (intro loop_body_airborne)
qed

section \<open>Evaluating the sample traces\<close>

lemmas eval_defs = loop_body_def item_def and_then_def step_dt_def py_div_def make_jump_def
  slice_def init_state_def degrees_def Let_def row_def

lemma upt_small: "[0..<3] = [0, 1, 2]" "[0..<2] = [0, 1]" "[0..<1] = [0]"
  by (simp_all add: upt_rec)


lemma two_jump_trace_run:
  "detect_jumps_offline two_jump_trace default_thresholds =
     Inr [\<lparr>start_idx = 0, end_idx = 2, start_time = Num 0, end_time = Num 0.4,
           duration_s = Num 0.4, yaw_degrees = Num 0, peak_accel = Num 4,
           landing_impact = Num 4\<rparr>,
          \<lparr>start_idx = 3, end_idx = 5, start_time = Num 1, end_time = Num 1.5,
           duration_s = Num 0.5, yaw_degrees = Num 0, peak_accel = Num 5,
           landing_impact = Num 3\<rparr>]"
  by (simp add: detect_jumps_offline_def eval_defs default_thresholds_def two_jump_trace_def upt_rec)

section \<open>The claims\<close>

subsection \<open>C1: configuration errors and errors in the loop\<close>

text \<open>
  C1, as stated, fails: \<^verbatim>\<open>detect_jumps_offline\<close> validates nothing. With a
  configuration whose values are all negative or zero it processes the samples and
  returns the empty list of events.
\<close>

theorem invalid_configuration_counterexample:
  "\<not> positive negative_thresholds \<and>
   detect_jumps_offline quiet_trace negative_thresholds = Inr []"
  by (simp add: positive_def negative_thresholds_def detect_jumps_offline_def quiet_trace_def
      eval_defs upt_small)

text \<open>
  C1, amended: for every configuration, positive or not, and every sample sequence the
  function returns a list of events, and no iteration of the loop raises: each index is
  reached and the body returns there.
\<close>

theorem process_never_raises:
  "(\<exists>js. detect_jumps_offline df cfg = Inr js) \<and>
   (\<forall>i < length df. \<exists>st st'. reaches cfg df i st \<and> loop_body cfg df i st = Inr st')"
proof
  show "\<exists>js. detect_jumps_offline df cfg = Inr js"
    using detect_jumps_offline_inv [of df cfg] by blast
next
  show "\<forall>i < length df. \<exists>st st'. reaches cfg df i st \<and> loop_body cfg df i st = Inr st'"
  proof (intro allI impI)
    fix i assume i: "i < length df"
    then obtain st where st: "reaches cfg df i st"
      using reaches_total [of i df cfg] by auto
    from reaches_step [OF st i] show "\<exists>st st'. reaches cfg df i st \<and> loop_body cfg df i st = Inr st'"
      using st by blast
  qed
qed

theorem process_never_raises_witness:
  "\<not> positive negative_thresholds \<and>
   (\<exists>js. detect_jumps_offline jump_trace negative_thresholds = Inr js) \<and>
   (\<exists>st st'. reaches negative_thresholds jump_trace 2 st \<and>
      loop_body negative_thresholds jump_trace 2 st = Inr st') \<and>
   (\<exists>js. detect_jumps_offline nan_trace default_thresholds = Inr js)"
proof -
  have "(2::nat) < length jump_trace" by (simp add: jump_trace_def)
  with process_never_raises [of jump_trace negative_thresholds]
    process_never_raises [of nan_trace default_thresholds]
  show ?thesis
    by (simp add: positive_def negative_thresholds_def)
qed

subsection \<open>C6: no sample above the take-off threshold\<close>

text \<open>
  C6: when no sample's acceleration magnitude exceeds \<open>takeoff_threshold\<close>, the function
  returns the empty list of events and no error. This holds for every configuration, for
  the empty sequence, and for magnitudes that are NaN.
\<close>

theorem no_takeoff_no_events:
  assumes "\<forall>r \<in> set df. \<not> f_gt (UserAccel_Mag r) (Num (takeoff_threshold cfg))"
  shows "detect_jumps_offline df cfg = Inr []"
proof -
  have "run_loop cfg df [0..<length df] init_state = Inr init_state"
    using assms by (intro run_loop_quiet) (simp_all add: init_state_def)
  then show ?thesis
    by (simp add: detect_jumps_offline_def and_then_def init_state_def)
qed

theorem no_takeoff_no_events_witness:
  "list_all (\<lambda>r. \<not> f_gt (UserAccel_Mag r) (Num (takeoff_threshold default_thresholds)))
     quiet_trace \<and>
   detect_jumps_offline quiet_trace default_thresholds = Inr [] \<and>
   detect_jumps_offline [] default_thresholds = Inr [] \<and>
   detect_jumps_offline [\<lparr>Time_s = NaN, UserAccel_Mag = NaN, RotationRate_Z = NaN\<rparr>]
     default_thresholds = Inr []"
  using no_takeoff_no_events [of quiet_trace default_thresholds]
    no_takeoff_no_events [of "[]" default_thresholds]
    no_takeoff_no_events [of "[\<lparr>Time_s = NaN, UserAccel_Mag = NaN, RotationRate_Z = NaN\<rparr>]"
      default_thresholds]
  by (simp add: quiet_trace_def default_thresholds_def row_def)

subsection \<open>C2: free fall while in the potential take-off phase\<close>

text \<open>
  C2, as stated, fails. The abandon test of line 116 is a second \<^verbatim>\<open>if\<close>, evaluated
  after the free-fall test of line 112, not an else-branch. With \<open>takeoff_threshold\<close>
  0.3 below \<open>freefall_ceiling\<close> 0.4, a sample of magnitude 0.35 at 0.6 s after the
  take-off passes both tests: the phase is set to airborne and, on the same iteration,
  back to ground.
\<close>

theorem freefall_else_branch_counterexample:
  "positive overlap_thresholds \<and>
   reaches overlap_thresholds overlap_trace 1
     \<lparr>state = potential_takeoff, jump_start_idx = 0, accumulated_yaw = Num 0, jumps = []\<rparr> \<and>
   f_lt (UserAccel_Mag (overlap_trace ! 1)) (Num (freefall_ceiling overlap_thresholds)) \<and>
   loop_body overlap_thresholds overlap_trace 1
     \<lparr>state = potential_takeoff, jump_start_idx = 0, accumulated_yaw = Num 0, jumps = []\<rparr> =
   Inr \<lparr>state = ground, jump_start_idx = 0, accumulated_yaw = Num 0, jumps = []\<rparr>"
  by (simp add: positive_def reaches_def eval_defs overlap_thresholds_def overlap_trace_def upt_small)

text \<open>
  C2, amended: for a sample processed in the potential take-off phase whose magnitude is
  below \<open>freefall_ceiling\<close>, the iteration ends in the airborne phase unless the elapsed
  time exceeds 0.5 s and the magnitude exceeds \<open>takeoff_threshold\<close>, in which case it
  ends on the ground; no event is appended and the start index is kept. In every
  configuration with \<open>freefall_ceiling \<le> takeoff_threshold\<close> it ends in the airborne phase.
\<close>

theorem potential_takeoff_freefall:
  assumes "reaches cfg df i st" "i < length df" "state st = potential_takeoff"
    and "f_lt (UserAccel_Mag (df ! i)) (Num (freefall_ceiling cfg))"
  shows "\<exists>st'. loop_body cfg df i st = Inr st' \<and> jumps st' = jumps st \<and>
           jump_start_idx st' = jump_start_idx st \<and>
           state st' = (if f_gt (elapsed_at df st i) (Num 0.5)
                           \<and> f_gt (UserAccel_Mag (df ! i)) (Num (takeoff_threshold cfg))
                        then ground else airborne) \<and>
           (freefall_ceiling cfg \<le> takeoff_threshold cfg \<longrightarrow> state st' = airborne)"
proof -
  from assms(4) obtain a where a: "UserAccel_Mag (df ! i) = Num a" "a < freefall_ceiling cfg"
    by (cases "UserAccel_Mag (df ! i)") simp_all
  show ?thesis
    using a reaches_potential_takeoff [OF assms(1-3)]
    by (simp add: Let_def add_yaw_def)
qed

theorem potential_takeoff_freefall_witness:
  "reaches default_thresholds jump_trace 1
     \<lparr>state = potential_takeoff, jump_start_idx = 0, accumulated_yaw = Num 0, jumps = []\<rparr> \<and>
   f_lt (UserAccel_Mag (jump_trace ! 1)) (Num (freefall_ceiling default_thresholds)) \<and>
   freefall_ceiling default_thresholds \<le> takeoff_threshold default_thresholds \<and>
   (\<exists>st'. loop_body default_thresholds jump_trace 1
       \<lparr>state = potential_takeoff, jump_start_idx = 0, accumulated_yaw = Num 0, jumps = []\<rparr>
         = Inr st' \<and>
     state st' = airborne)"
proof -
  let ?st = "\<lparr>state = potential_takeoff, jump_start_idx = 0, accumulated_yaw = Num 0, jumps = []\<rparr>"
  have r: "reaches default_thresholds jump_trace 1 ?st"
    by (simp add: reaches_def eval_defs default_thresholds_def jump_trace_def upt_small)
  have l: "(1::nat) < length jump_trace" by (simp add: jump_trace_def)
  have a: "f_lt (UserAccel_Mag (jump_trace ! 1)) (Num (freefall_ceiling default_thresholds))"
    by (simp add: jump_trace_def default_thresholds_def row_def)
  have c: "freefall_ceiling default_thresholds \<le> takeoff_threshold default_thresholds"
    by (simp add: default_thresholds_def)
  from potential_takeoff_freefall [OF r l _ a] c r a show ?thesis by auto
qed

subsection \<open>C4: an impact at half of the minimum airtime\<close>

text \<open>
  C4: in the airborne phase, a sample at an elapsed time of exactly
  \<open>min_airtime_s / 2\<close> does not take the impact branch, whatever its magnitude (in
  particular above \<open>landing_threshold\<close>): no event is appended, and the phase stays
  airborne unless the 5 s timeout of line 141 applies.
\<close>

theorem airborne_half_gate:
  assumes "reaches cfg df i st" "i < length df" "state st = airborne"
    and "elapsed_at df st i = Num (min_airtime_s cfg / 2)"
  shows "\<exists>st'. loop_body cfg df i st = Inr st' \<and> jumps st' = jumps st \<and>
           state st' = (if f_gt (elapsed_at df st i) (Num 5) then ground else airborne)"
  using assms(3,4) reaches_airborne [OF assms(1-3)]
  by (simp add: Let_def add_yaw_def)

theorem airborne_half_gate_witness:
  "reaches default_thresholds half_trace 2
     \<lparr>state = airborne, jump_start_idx = 0, accumulated_yaw = Num 0, jumps = []\<rparr> \<and>
   f_gt (UserAccel_Mag (half_trace ! 2)) (Num (landing_threshold default_thresholds)) \<and>
   f_sub (Time_s (half_trace ! 2)) (Time_s (half_trace ! 0))
     = Num (min_airtime_s default_thresholds / 2) \<and>
   (\<exists>st'. loop_body default_thresholds half_trace 2
       \<lparr>state = airborne, jump_start_idx = 0, accumulated_yaw = Num 0, jumps = []\<rparr> = Inr st' \<and>
     jumps st' = [] \<and> state st' = airborne) \<and>
   detect_jumps_offline half_trace default_thresholds = Inr []"
proof -
  let ?st = "\<lparr>state = airborne, jump_start_idx = 0, accumulated_yaw = Num 0, jumps = []\<rparr>"
  have r: "reaches default_thresholds half_trace 2 ?st"
    by (simp add: reaches_def eval_defs default_thresholds_def half_trace_def upt_small)
  have l: "(2::nat) < length half_trace" by (simp add: half_trace_def)
  have e: "elapsed_at half_trace ?st 2 = Num (min_airtime_s default_thresholds / 2)"
    by (simp add: elapsed_at_def half_trace_def default_thresholds_def row_def)
  have a: "f_gt (UserAccel_Mag (half_trace ! 2)) (Num (landing_threshold default_thresholds))"
    by (simp add: half_trace_def default_thresholds_def row_def)
  have d: "detect_jumps_offline half_trace default_thresholds = Inr []"
    by (simp add: detect_jumps_offline_def eval_defs default_thresholds_def half_trace_def upt_small)
  have e5: "\<not> f_gt (elapsed_at half_trace ?st 2) (Num 5)"
    by (simp add: elapsed_at_def half_trace_def row_def)
  from airborne_half_gate [OF r l _ e] e5 have
    "\<exists>st'. loop_body default_thresholds half_trace 2 ?st = Inr st' \<and> jumps st' = [] \<and> state st' = airborne"
    by auto
  with r a e d show ?thesis by (simp add: elapsed_at_def)
qed

section \<open>Runs that stay in the potential take-off phase\<close>

lemma run_loop_plateau:
  assumes "state st = potential_takeoff" "jump_start_idx st < length df"
    and "\<forall>k \<in> set ixs. 0 < k \<and> k < length df \<and>
           \<not> f_lt (UserAccel_Mag (df ! k)) (Num (freefall_ceiling cfg)) \<and>
           \<not> f_gt (UserAccel_Mag (df ! k)) (Num (takeoff_threshold cfg))"
  shows "\<exists>st'. run_loop cfg df ixs st = Inr st' \<and> state st' = potential_takeoff \<and>
           jump_start_idx st' = jump_start_idx st \<and> jumps st' = jumps st"
  using assms
proof (induction ixs arbitrary: st)
  case Nil
  then show ?case by simp
next
  case (Cons k ixs)
  let ?st1 = "add_yaw df k st"
  from Cons.prems have k: "0 < k" "k < length df"
    and lo: "\<not> f_lt (UserAccel_Mag (df ! k)) (Num (freefall_ceiling cfg))"
    and hi: "\<not> f_gt (UserAccel_Mag (df ! k)) (Num (takeoff_threshold cfg))"
    by simp_all
  have body: "loop_body cfg df k st = Inr ?st1"
    using loop_body_potential_takeoff [OF Cons.prems(1) k Cons.prems(2), of cfg] lo hi
    by (simp add: Let_def)
  have st1: "state ?st1 = potential_takeoff" "jump_start_idx ?st1 = jump_start_idx st"
    "jumps ?st1 = jumps st"
    using Cons.prems(1) by (simp_all add: add_yaw_def)
  have "\<exists>st'. run_loop cfg df ixs ?st1 = Inr st' \<and> state st' = potential_takeoff \<and>
           jump_start_idx st' = jump_start_idx ?st1 \<and> jumps st' = jumps ?st1"
    using Cons.prems(2,3) st1 by (intro Cons.IH) simp_all
  with body st1 show ?case by (simp add: and_then_def)
qed

lemma reaches_extend:
  assumes "reaches cfg df m st" "run_loop cfg df [m..<length df] st = Inr st'"
  shows "reaches cfg df (length df) st'"
proof -
  from assms(1) have m: "m \<le> length df" and r: "run_loop cfg df [0..<m] init_state = Inr st"
    by (simp_all add: reaches_def)
  from m have "[0..<length df] = [0..<m] @ [m..<length df]"
    using upt_add_eq_append [of 0 m "length df - m"] by simp
  with r assms(2) show ?thesis
    by (simp add: reaches_def run_loop_append and_then_def)
qed

subsection \<open>C10: no timeout in the potential take-off phase\<close>

text \<open>
  C10: an iteration in the potential take-off phase appends no event; it leaves the phase
  for the airborne phase only when the magnitude is below \<open>freefall_ceiling\<close>, and for
  the ground only when the elapsed time exceeds 0.5 s and the magnitude exceeds
  \<open>takeoff_threshold\<close>. There is no test of the elapsed time alone: the 5 s timeout
  belongs to the airborne phase. So when the magnitude of every later sample is neither
  below \<open>freefall_ceiling\<close> nor above \<open>takeoff_threshold\<close> (as is every number between the
  two), the run ends in the potential take-off phase, with the same start index, and
  returns the events it had before.
\<close>

theorem potential_takeoff_no_timeout:
  assumes "reaches cfg df m st" "state st = potential_takeoff"
  shows "(m < length df \<longrightarrow>
           (\<exists>st'. loop_body cfg df m st = Inr st' \<and> jumps st' = jumps st \<and>
              (state st' = airborne \<longrightarrow>
                 f_lt (UserAccel_Mag (df ! m)) (Num (freefall_ceiling cfg))) \<and>
              (state st' = ground \<longrightarrow>
                 f_gt (elapsed_at df st m) (Num 0.5) \<and>
                 f_gt (UserAccel_Mag (df ! m)) (Num (takeoff_threshold cfg))))) \<and>
         ((\<forall>k. m \<le> k \<and> k < length df \<longrightarrow>
              \<not> f_lt (UserAccel_Mag (df ! k)) (Num (freefall_ceiling cfg)) \<and>
              \<not> f_gt (UserAccel_Mag (df ! k)) (Num (takeoff_threshold cfg))) \<longrightarrow>
           (\<exists>st'. reaches cfg df (length df) st' \<and> state st' = potential_takeoff \<and>
              jump_start_idx st' = jump_start_idx st \<and> jumps st' = jumps st \<and>
              detect_jumps_offline df cfg = Inr (jumps st)))"
proof (intro conjI impI)
  assume m: "m < length df"
  show "\<exists>st'. loop_body cfg df m st = Inr st' \<and> jumps st' = jumps st \<and>
          (state st' = airborne \<longrightarrow>
             f_lt (UserAccel_Mag (df ! m)) (Num (freefall_ceiling cfg))) \<and>
          (state st' = ground \<longrightarrow>
             f_gt (elapsed_at df st m) (Num 0.5) \<and>
             f_gt (UserAccel_Mag (df ! m)) (Num (takeoff_threshold cfg)))"
    using reaches_potential_takeoff [OF assms(1) m assms(2)] assms(2)
    by (simp add: Let_def add_yaw_def)
next
  assume plateau: "\<forall>k. m \<le> k \<and> k < length df \<longrightarrow>
      \<not> f_lt (UserAccel_Mag (df ! k)) (Num (freefall_ceiling cfg)) \<and>
      \<not> f_gt (UserAccel_Mag (df ! k)) (Num (takeoff_threshold cfg))"
  have lt: "jump_start_idx st < m"
    using reaches_not_ground [OF assms(1)] assms(2) by simp
  from assms(1) have "m \<le> length df" by (simp add: reaches_def)
  with lt have inr: "jump_start_idx st < length df" by simp
  have "\<forall>k \<in> set [m..<length df]. 0 < k \<and> k < length df \<and>
           \<not> f_lt (UserAccel_Mag (df ! k)) (Num (freefall_ceiling cfg)) \<and>
           \<not> f_gt (UserAccel_Mag (df ! k)) (Num (takeoff_threshold cfg))"
    using plateau lt by auto
  from run_loop_plateau [OF assms(2) inr this] obtain st'
    where st': "run_loop cfg df [m..<length df] st = Inr st'" "state st' = potential_takeoff"
      "jump_start_idx st' = jump_start_idx st" "jumps st' = jumps st"
    by blast
  have r: "reaches cfg df (length df) st'"
    using reaches_extend [OF assms(1) st'(1)] .
  with st' detect_jumps_offline_reaches [OF r]
  show "\<exists>st'. reaches cfg df (length df) st' \<and> state st' = potential_takeoff \<and>
          jump_start_idx st' = jump_start_idx st \<and> jumps st' = jumps st \<and>
          detect_jumps_offline df cfg = Inr (jumps st)"
    by auto
qed

theorem potential_takeoff_no_timeout_witness:
  "reaches default_thresholds plateau_trace 1
     \<lparr>state = potential_takeoff, jump_start_idx = 0, accumulated_yaw = Num 0, jumps = []\<rparr> \<and>
   list_all (\<lambda>r. f_ge (UserAccel_Mag r) (Num (freefall_ceiling default_thresholds)) \<and>
               f_ge (Num (takeoff_threshold default_thresholds)) (UserAccel_Mag r))
     (drop 1 plateau_trace) \<and>
   f_gt (f_sub (Time_s (plateau_trace ! 2)) (Time_s (plateau_trace ! 0))) (Num 5) \<and>
   (\<exists>st'. reaches default_thresholds plateau_trace (length plateau_trace) st' \<and>
      state st' = potential_takeoff \<and> jumps st' = []) \<and>
   detect_jumps_offline plateau_trace default_thresholds = Inr []"
proof -
  let ?st = "\<lparr>state = potential_takeoff, jump_start_idx = 0, accumulated_yaw = Num 0, jumps = []\<rparr>"
  have r: "reaches default_thresholds plateau_trace 1 ?st"
    by (simp add: reaches_def eval_defs default_thresholds_def plateau_trace_def upt_small)
  have p: "\<forall>k. 1 \<le> k \<and> k < length plateau_trace \<longrightarrow>
      \<not> f_lt (UserAccel_Mag (plateau_trace ! k)) (Num (freefall_ceiling default_thresholds)) \<and>
      \<not> f_gt (UserAccel_Mag (plateau_trace ! k)) (Num (takeoff_threshold default_thresholds))"
    by (auto simp: plateau_trace_def default_thresholds_def row_def nth_Cons' less_Suc_eq
        numeral_3_eq_3)
  have l: "list_all (\<lambda>r. f_ge (UserAccel_Mag r) (Num (freefall_ceiling default_thresholds)) \<and>
               f_ge (Num (takeoff_threshold default_thresholds)) (UserAccel_Mag r))
     (drop 1 plateau_trace)"
    by (simp add: plateau_trace_def default_thresholds_def row_def)
  have t: "f_gt (f_sub (Time_s (plateau_trace ! 2)) (Time_s (plateau_trace ! 0))) (Num 5)"
    by (simp add: plateau_trace_def row_def)
  from potential_takeoff_no_timeout [OF r, simplified] p
  have "\<exists>st'. reaches default_thresholds plateau_trace (length plateau_trace) st' \<and>
      state st' = potential_takeoff \<and> jumps st' = [] \<and>
      detect_jumps_offline plateau_trace default_thresholds = Inr []"
    by auto
  with r l t show ?thesis by auto
qed

section \<open>The events of a run\<close>

lemma detect_jumps_offline_events:
  "\<exists>js. detect_jumps_offline df cfg = Inr js \<and> (\<forall>j \<in> set js. event_ok cfg df j) \<and>
     sorted_wrt (\<lambda>a b. end_idx a < start_idx b) js"
  using detect_jumps_offline_inv [of df cfg] by (auto simp: loop_inv_def)

lemma window_max_nan: "window_has_nan df a b \<Longrightarrow> window_max df a b = NaN"
  by (simp add: window_max_def)

lemma window_max_ge:
  assumes "\<not> window_has_nan df a b" "a \<le> k" "k \<le> b"
  shows "f_ge (window_max df a b) (UserAccel_Mag (df ! k))"
proof -
  from assms obtain x where x: "UserAccel_Mag (df ! k) = Num x"
    by (cases "UserAccel_Mag (df ! k)") (auto simp: window_has_nan_def)
  have "num_of (UserAccel_Mag (df ! k)) \<le> Max ((\<lambda>k. num_of (UserAccel_Mag (df ! k))) ` {a..b})"
    using assms(2,3) by (intro Max_ge) auto
  with x assms(1) show ?thesis by (simp add: window_max_def)
qed

lemma window_max_attained:
  assumes "\<not> window_has_nan df a b" "a \<le> b"
  shows "\<exists>k. a \<le> k \<and> k \<le> b \<and> window_max df a b = UserAccel_Mag (df ! k)"
proof -
  have "Max ((\<lambda>k. num_of (UserAccel_Mag (df ! k))) ` {a..b})
          \<in> (\<lambda>k. num_of (UserAccel_Mag (df ! k))) ` {a..b}"
    using assms(2) by (intro Max_in) auto
  then obtain k where k: "a \<le> k" "k \<le> b"
    and m: "Max ((\<lambda>k. num_of (UserAccel_Mag (df ! k))) ` {a..b}) = num_of (UserAccel_Mag (df ! k))"
    by auto
  from assms(1) k obtain x where "UserAccel_Mag (df ! k) = Num x"
    by (cases "UserAccel_Mag (df ! k)") (auto simp: window_has_nan_def)
  with m k assms(1) show ?thesis by (auto simp: window_max_def)
qed

lemma reaches_appends:
  assumes "reaches cfg df i st" "i < length df"
  shows "\<exists>st'. loop_body cfg df i st = Inr st' \<and>
           jumps st' = (if confirms cfg df i st then jumps st @ [landing_event df i st] else jumps st)"
proof (cases "state st")
  case ground
  then show ?thesis
    using loop_body_ground [OF ground assms(2), of cfg] by (simp add: confirms_def)
next
  case potential_takeoff
  then show ?thesis
    using reaches_potential_takeoff [OF assms potential_takeoff]
    by (simp add: confirms_def Let_def add_yaw_def)
next
  case airborne
  then show ?thesis
    using reaches_airborne [OF assms airborne]
    by (simp add: confirms_def Let_def add_yaw_def)
qed

subsection \<open>C3: the minimum airtime\<close>

text \<open>
  C3: every event of the returned list has \<open>duration_s\<close> at least \<open>min_airtime_s\<close>
  (and \<open>duration_s\<close> is the elapsed time from the take-off sample to the landing
  sample). In the airborne phase, an iteration whose elapsed time is not at least
  \<open>min_airtime_s\<close> appends nothing, and discards the candidate when the impact gate is
  passed; an iteration whose elapsed time equals a positive \<open>min_airtime_s\<close>, on a
  sample above \<open>landing_threshold\<close>, appends the event, with that duration, and returns
  to the ground.
\<close>

theorem confirmed_duration:
  "(\<exists>js. detect_jumps_offline df cfg = Inr js \<and>
      (\<forall>j \<in> set js. f_ge (duration_s j) (Num (min_airtime_s cfg)) \<and>
         duration_s j = f_sub (Time_s (df ! end_idx j)) (Time_s (df ! start_idx j)))) \<and>
   (\<forall>i st. reaches cfg df i st \<and> i < length df \<and> state st = airborne \<longrightarrow>
      (\<exists>st'. loop_body cfg df i st = Inr st' \<and>
         (\<not> f_ge (elapsed_at df st i) (Num (min_airtime_s cfg)) \<longrightarrow>
            jumps st' = jumps st \<and>
            (f_gt (UserAccel_Mag (df ! i)) (Num (landing_threshold cfg)) \<and>
             f_gt (elapsed_at df st i) (Num (min_airtime_s cfg * 0.5)) \<longrightarrow> state st' = ground)) \<and>
         (elapsed_at df st i = Num (min_airtime_s cfg) \<and> 0 < min_airtime_s cfg \<and>
          f_gt (UserAccel_Mag (df ! i)) (Num (landing_threshold cfg)) \<longrightarrow>
            jumps st' = jumps st @ [landing_event df i st] \<and>
            duration_s (landing_event df i st) = Num (min_airtime_s cfg) \<and>
            state st' = ground)))"
proof (intro conjI allI impI)
  from detect_jumps_offline_events [of df cfg] obtain js
    where js: "detect_jumps_offline df cfg = Inr js" "\<forall>j \<in> set js. event_ok cfg df j"
    by blast
  from js(2) have "\<forall>j \<in> set js. f_ge (duration_s j) (Num (min_airtime_s cfg)) \<and>
         duration_s j = f_sub (Time_s (df ! end_idx j)) (Time_s (df ! start_idx j))"
    by (auto simp: event_ok_def)
  with js(1) show "\<exists>js. detect_jumps_offline df cfg = Inr js \<and>
      (\<forall>j \<in> set js. f_ge (duration_s j) (Num (min_airtime_s cfg)) \<and>
         duration_s j = f_sub (Time_s (df ! end_idx j)) (Time_s (df ! start_idx j)))"
    by blast
next
  fix i st
  assume a: "reaches cfg df i st \<and> i < length df \<and> state st = airborne"
  then have body: "loop_body cfg df i st =
     Inr (let st1 = add_yaw df i st;
              st3 = (if f_gt (UserAccel_Mag (df ! i)) (Num (landing_threshold cfg))
                        \<and> f_gt (elapsed_at df st i) (Num (min_airtime_s cfg * 0.5))
                     then (if f_ge (elapsed_at df st i) (Num (min_airtime_s cfg))
                           then st1\<lparr>jumps := jumps st1 @ [landing_event df i st]\<rparr>
                           else st1)\<lparr>state := ground\<rparr>
                     else st1)
          in if f_gt (elapsed_at df st i) (Num 5.0) then st3\<lparr>state := ground\<rparr> else st3)"
    by (intro reaches_airborne) simp_all
  show "\<exists>st'. loop_body cfg df i st = Inr st' \<and>
         (\<not> f_ge (elapsed_at df st i) (Num (min_airtime_s cfg)) \<longrightarrow>
            jumps st' = jumps st \<and>
            (f_gt (UserAccel_Mag (df ! i)) (Num (landing_threshold cfg)) \<and>
             f_gt (elapsed_at df st i) (Num (min_airtime_s cfg * 0.5)) \<longrightarrow> state st' = ground)) \<and>
         (elapsed_at df st i = Num (min_airtime_s cfg) \<and> 0 < min_airtime_s cfg \<and>
          f_gt (UserAccel_Mag (df ! i)) (Num (landing_threshold cfg)) \<longrightarrow>
            jumps st' = jumps st @ [landing_event df i st] \<and>
            duration_s (landing_event df i st) = Num (min_airtime_s cfg) \<and>
            state st' = ground)"
    unfolding body
    by (auto simp: Let_def add_yaw_def landing_event_def)
qed

theorem confirmed_duration_witness:
  "detect_jumps_offline boundary_trace default_thresholds =
     Inr [\<lparr>start_idx = 0, end_idx = 2, start_time = Num 0, end_time = Num 0.2,
           duration_s = Num 0.2, yaw_degrees = Num 0, peak_accel = Num 4,
           landing_impact = Num 4\<rparr>] \<and>
   min_airtime_s default_thresholds = 0.2 \<and>
   reaches default_thresholds boundary_trace 2
     \<lparr>state = airborne, jump_start_idx = 0, accumulated_yaw = Num 0, jumps = []\<rparr> \<and>
   (\<exists>st'. loop_body default_thresholds boundary_trace 2
        \<lparr>state = airborne, jump_start_idx = 0, accumulated_yaw = Num 0, jumps = []\<rparr> = Inr st' \<and>
      length (jumps st') = 1 \<and> state st' = ground) \<and>
   reaches default_thresholds short_trace 2
     \<lparr>state = airborne, jump_start_idx = 0, accumulated_yaw = Num 0, jumps = []\<rparr> \<and>
   (\<exists>st'. loop_body default_thresholds short_trace 2
        \<lparr>state = airborne, jump_start_idx = 0, accumulated_yaw = Num 0, jumps = []\<rparr> = Inr st' \<and>
      jumps st' = [] \<and> state st' = ground)"
proof -
  let ?st = "\<lparr>state = airborne, jump_start_idx = 0, accumulated_yaw = Num 0, jumps = []\<rparr>"
  have run: "detect_jumps_offline boundary_trace default_thresholds =
     Inr [\<lparr>start_idx = 0, end_idx = 2, start_time = Num 0, end_time = Num 0.2,
           duration_s = Num 0.2, yaw_degrees = Num 0, peak_accel = Num 4,
           landing_impact = Num 4\<rparr>]"
    by (simp add: detect_jumps_offline_def eval_defs default_thresholds_def boundary_trace_def upt_small)
  have m: "min_airtime_s default_thresholds = 0.2" by (simp add: default_thresholds_def)
  have rb: "reaches default_thresholds boundary_trace 2 ?st"
    by (simp add: reaches_def eval_defs default_thresholds_def boundary_trace_def upt_small)
  have rs: "reaches default_thresholds short_trace 2 ?st"
    by (simp add: reaches_def eval_defs default_thresholds_def short_trace_def upt_small)
  have lb: "(2::nat) < length boundary_trace" and ls: "(2::nat) < length short_trace"
    by (simp_all add: boundary_trace_def short_trace_def)
  have eb: "elapsed_at boundary_trace ?st 2 = Num (min_airtime_s default_thresholds)"
    "0 < min_airtime_s default_thresholds"
    "f_gt (UserAccel_Mag (boundary_trace ! 2)) (Num (landing_threshold default_thresholds))"
    by (simp_all add: elapsed_at_def boundary_trace_def default_thresholds_def row_def)
  have es: "\<not> f_ge (elapsed_at short_trace ?st 2) (Num (min_airtime_s default_thresholds))"
    "f_gt (UserAccel_Mag (short_trace ! 2)) (Num (landing_threshold default_thresholds))"
    "f_gt (elapsed_at short_trace ?st 2) (Num (min_airtime_s default_thresholds * 0.5))"
    by (simp_all add: elapsed_at_def short_trace_def default_thresholds_def row_def)
  from confirmed_duration [of boundary_trace default_thresholds] rb lb eb
  have b: "\<exists>st'. loop_body default_thresholds boundary_trace 2 ?st = Inr st' \<and>
      length (jumps st') = 1 \<and> state st' = ground"
    by fastforce
  from confirmed_duration [of short_trace default_thresholds] rs ls es
  have s: "\<exists>st'. loop_body default_thresholds short_trace 2 ?st = Inr st' \<and>
      jumps st' = [] \<and> state st' = ground"
    by fastforce
  from run m rb rs b s show ?thesis by blast
qed

subsection \<open>C5: peak acceleration and landing impact\<close>

text \<open>
  C5, as stated, fails: \<^verbatim>\<open>max()\<close> at line 128 returns NaN when a magnitude in the
  window is NaN. A NaN sample in the airborne phase passes none of the tests and stays in
  the window, so the event of \<open>nan_trace\<close> has the peak NaN, which is not at least
  the magnitude 3 at its start index.
\<close>

theorem peak_is_nan_counterexample:
  "detect_jumps_offline nan_trace default_thresholds =
     Inr [\<lparr>start_idx = 0, end_idx = 3, start_time = Num 0, end_time = Num 0.4,
           duration_s = Num 0.4, yaw_degrees = Num 0, peak_accel = NaN,
           landing_impact = Num 4\<rparr>] \<and>
   UserAccel_Mag (nan_trace ! 0) = Num 3 \<and>
   \<not> f_ge NaN (UserAccel_Mag (nan_trace ! 0))"
  by (simp add: detect_jumps_offline_def eval_defs default_thresholds_def nan_trace_def upt_rec)

text \<open>
  C5, amended: for every event of the returned list, \<open>landing_impact\<close> is the
  acceleration magnitude at \<open>end_idx\<close>, the magnitudes at \<open>start_idx\<close> and \<open>end_idx\<close> are
  numbers above the take-off and the landing threshold, and \<open>peak_accel\<close> is what
  \<^verbatim>\<open>max()\<close> gives on the magnitudes at the indices from \<open>start_idx\<close> to \<open>end_idx\<close>
  inclusive. When none of these magnitudes is NaN that is their maximum: it is at least
  each of them, is attained at one of these indices, and so dominates both endpoints.
  When one of them is NaN the peak is NaN.
\<close>

theorem peak_and_impact:
  "\<exists>js. detect_jumps_offline df cfg = Inr js \<and>
     (\<forall>j \<in> set js.
        start_idx j \<le> end_idx j \<and> end_idx j < length df \<and>
        landing_impact j = UserAccel_Mag (df ! end_idx j) \<and>
        f_gt (UserAccel_Mag (df ! start_idx j)) (Num (takeoff_threshold cfg)) \<and>
        f_gt (UserAccel_Mag (df ! end_idx j)) (Num (landing_threshold cfg)) \<and>
        peak_accel j = window_max df (start_idx j) (end_idx j) \<and>
        (if window_has_nan df (start_idx j) (end_idx j) then peak_accel j = NaN
         else (\<forall>k. start_idx j \<le> k \<and> k \<le> end_idx j \<longrightarrow>
                 f_ge (peak_accel j) (UserAccel_Mag (df ! k))) \<and>
              (\<exists>k. start_idx j \<le> k \<and> k \<le> end_idx j \<and>
                 peak_accel j = UserAccel_Mag (df ! k)) \<and>
              f_ge (peak_accel j) (UserAccel_Mag (df ! start_idx j)) \<and>
              f_ge (peak_accel j) (UserAccel_Mag (df ! end_idx j))))"
proof -
  from detect_jumps_offline_events [of df cfg] obtain js
    where js: "detect_jumps_offline df cfg = Inr js" "\<forall>j \<in> set js. event_ok cfg df j"
    by blast
  have "start_idx j \<le> end_idx j \<and> end_idx j < length df \<and>
        landing_impact j = UserAccel_Mag (df ! end_idx j) \<and>
        f_gt (UserAccel_Mag (df ! start_idx j)) (Num (takeoff_threshold cfg)) \<and>
        f_gt (UserAccel_Mag (df ! end_idx j)) (Num (landing_threshold cfg)) \<and>
        peak_accel j = window_max df (start_idx j) (end_idx j) \<and>
        (if window_has_nan df (start_idx j) (end_idx j) then peak_accel j = NaN
         else (\<forall>k. start_idx j \<le> k \<and> k \<le> end_idx j \<longrightarrow>
                 f_ge (peak_accel j) (UserAccel_Mag (df ! k))) \<and>
              (\<exists>k. start_idx j \<le> k \<and> k \<le> end_idx j \<and>
                 peak_accel j = UserAccel_Mag (df ! k)) \<and>
              f_ge (peak_accel j) (UserAccel_Mag (df ! start_idx j)) \<and>
              f_ge (peak_accel j) (UserAccel_Mag (df ! end_idx j)))"
    if "j \<in> set js" for j
  proof -
    from that js(2) have ok: "event_ok cfg df j" by blast
    then have le: "start_idx j \<le> end_idx j"
      and pk: "peak_accel j = window_max df (start_idx j) (end_idx j)"
      by (simp_all add: event_ok_def)
    show ?thesis
    proof (cases "window_has_nan df (start_idx j) (end_idx j)")
      case True
      with ok le pk show ?thesis
        by (simp add: event_ok_def window_max_nan)
    next
      case False
      from window_max_attained [OF False le] pk
      have att: "\<exists>k. start_idx j \<le> k \<and> k \<le> end_idx j \<and> peak_accel j = UserAccel_Mag (df ! k)"
        by simp
      from ok le pk att False show ?thesis
        by (simp add: event_ok_def window_max_ge)
    qed
  qed
  with js(1) show ?thesis by blast
qed

theorem peak_and_impact_witness:
  "detect_jumps_offline two_jump_trace default_thresholds =
     Inr [\<lparr>start_idx = 0, end_idx = 2, start_time = Num 0, end_time = Num 0.4,
           duration_s = Num 0.4, yaw_degrees = Num 0, peak_accel = Num 4,
           landing_impact = Num 4\<rparr>,
          \<lparr>start_idx = 3, end_idx = 5, start_time = Num 1, end_time = Num 1.5,
           duration_s = Num 0.5, yaw_degrees = Num 0, peak_accel = Num 5,
           landing_impact = Num 3\<rparr>] \<and>
   window_max two_jump_trace 0 2 = Num 4 \<and> window_max two_jump_trace 3 5 = Num 5 \<and>
   UserAccel_Mag (two_jump_trace ! 2) = Num 4 \<and> UserAccel_Mag (two_jump_trace ! 5) = Num 3"
proof -
  let ?j1 = "\<lparr>start_idx = 0, end_idx = 2, start_time = Num 0, end_time = Num 0.4,
       duration_s = Num 0.4, yaw_degrees = Num 0, peak_accel = Num 4,
       landing_impact = Num 4\<rparr>"
  let ?j2 = "\<lparr>start_idx = 3, end_idx = 5, start_time = Num 1, end_time = Num 1.5,
       duration_s = Num 0.5, yaw_degrees = Num 0, peak_accel = Num 5,
       landing_impact = Num 3\<rparr>"
  from peak_and_impact [of two_jump_trace default_thresholds] obtain js
    where js: "detect_jumps_offline two_jump_trace default_thresholds = Inr js"
      and p: "\<forall>j \<in> set js.
        peak_accel j = window_max two_jump_trace (start_idx j) (end_idx j) \<and>
        landing_impact j = UserAccel_Mag (two_jump_trace ! end_idx j)"
    by blast
  from js two_jump_trace_run have m: "?j1 \<in> set js" "?j2 \<in> set js"
    by auto
  from p m(1) have "peak_accel ?j1 = window_max two_jump_trace (start_idx ?j1) (end_idx ?j1) \<and>
      landing_impact ?j1 = UserAccel_Mag (two_jump_trace ! end_idx ?j1)"
    by (rule bspec)
  then have w1: "window_max two_jump_trace 0 2 = Num 4" "UserAccel_Mag (two_jump_trace ! 2) = Num 4"
    by auto
  from p m(2) have "peak_accel ?j2 = window_max two_jump_trace (start_idx ?j2) (end_idx ?j2) \<and>
      landing_impact ?j2 = UserAccel_Mag (two_jump_trace ! end_idx ?j2)"
    by (rule bspec)
  then have w2: "window_max two_jump_trace 3 5 = Num 5" "UserAccel_Mag (two_jump_trace ! 5) = Num 3"
    by auto
  show ?thesis
    using two_jump_trace_run w1 w2 by (intro conjI)
qed
subsection \<open>C7: the order of the events\<close>

text \<open>
  C7: the events of the returned list are in strictly increasing order of \<open>start_idx\<close>,
  each event ending before the next one starts, so the list has no duplicates; when the
  time stamps are numbers that do not decrease, the events are in non-decreasing order of
  \<open>start_time\<close> too. Each iteration that confirms a candidate appends exactly one event,
  and every other iteration appends none.
\<close>

theorem events_in_order:
  "(\<exists>js. detect_jumps_offline df cfg = Inr js \<and>
     sorted (map start_idx js) \<and> distinct (map start_idx js) \<and> distinct js \<and>
     sorted_wrt (\<lambda>a b. end_idx a < start_idx b) js \<and>
     (\<forall>j \<in> set js. start_idx j < end_idx j) \<and>
     (non_decreasing (map Time_s df) \<longrightarrow> non_decreasing (map start_time js))) \<and>
   (\<forall>i st. reaches cfg df i st \<and> i < length df \<longrightarrow>
      (\<exists>st'. loop_body cfg df i st = Inr st' \<and>
         jumps st' = (if confirms cfg df i st then jumps st @ [landing_event df i st]
                      else jumps st)))"
proof (intro conjI allI impI)
  from detect_jumps_offline_events [of df cfg] obtain js
    where js: "detect_jumps_offline df cfg = Inr js" "\<forall>j \<in> set js. event_ok cfg df j"
      and apart: "sorted_wrt (\<lambda>a b. end_idx a < start_idx b) js"
    by blast
  from js(2) have lt: "\<forall>j \<in> set js. start_idx j < end_idx j"
    by (simp add: event_ok_def)
  have strict: "sorted_wrt (\<lambda>a b. start_idx a < start_idx b) js"
    using apart
  proof (rule sorted_wrt_mono_rel [rotated])
    fix a b assume "a \<in> set js" "b \<in> set js" "end_idx a < start_idx b"
    with lt show "start_idx a < start_idx b" by fastforce
  qed
  then have s: "sorted_wrt (<) (map start_idx js)"
    by (simp add: sorted_wrt_map)
  then have sd: "sorted (map start_idx js)" "distinct (map start_idx js)"
    by (simp_all add: strict_sorted_iff)
  then have d: "distinct js" by (simp add: distinct_map)
  have times: "non_decreasing (map start_time js)" if mono: "non_decreasing (map Time_s df)"
  proof -
    have "sorted_wrt (\<lambda>a b. f_ge (start_time b) (start_time a)) js"
      using strict
    proof (rule sorted_wrt_mono_rel [rotated])
      fix a b assume a: "a \<in> set js" and b: "b \<in> set js" and ab: "start_idx a < start_idx b"
      from a b js(2) have ta: "start_time a = Time_s (df ! start_idx a)"
        and tb: "start_time b = Time_s (df ! start_idx b)"
        and bl: "start_idx b < length df"
        by (auto simp: event_ok_def)
      from ab bl have al: "start_idx a < length df" by simp
      have "f_ge (map Time_s df ! start_idx b) (map Time_s df ! start_idx a)"
        using mono ab bl unfolding non_decreasing_def
        by (intro sorted_wrt_nth_less [where P = "\<lambda>a b. f_ge b a"]) simp_all
      with ta tb al bl show "f_ge (start_time b) (start_time a)" by simp
    qed
    then show ?thesis by (simp add: non_decreasing_def sorted_wrt_map)
  qed
  from js(1) sd d apart lt times
  show "\<exists>js. detect_jumps_offline df cfg = Inr js \<and>
     sorted (map start_idx js) \<and> distinct (map start_idx js) \<and> distinct js \<and>
     sorted_wrt (\<lambda>a b. end_idx a < start_idx b) js \<and>
     (\<forall>j \<in> set js. start_idx j < end_idx j) \<and>
     (non_decreasing (map Time_s df) \<longrightarrow> non_decreasing (map start_time js))"
    by blast
next
  fix i st
  assume "reaches cfg df i st \<and> i < length df"
  then show "\<exists>st'. loop_body cfg df i st = Inr st' \<and>
         jumps st' = (if confirms cfg df i st then jumps st @ [landing_event df i st]
                      else jumps st)"
    using reaches_appends [of cfg df i st] by simp
qed

theorem events_in_order_witness:
  "detect_jumps_offline two_jump_trace default_thresholds =
     Inr [\<lparr>start_idx = 0, end_idx = 2, start_time = Num 0, end_time = Num 0.4,
           duration_s = Num 0.4, yaw_degrees = Num 0, peak_accel = Num 4,
           landing_impact = Num 4\<rparr>,
          \<lparr>start_idx = 3, end_idx = 5, start_time = Num 1, end_time = Num 1.5,
           duration_s = Num 0.5, yaw_degrees = Num 0, peak_accel = Num 5,
           landing_impact = Num 3\<rparr>] \<and>
   non_decreasing (map Time_s two_jump_trace) \<and>
   (\<exists>js. detect_jumps_offline two_jump_trace default_thresholds = Inr js \<and>
      sorted (map start_idx js) \<and> distinct js \<and> non_decreasing (map start_time js) \<and>
      length js = 2)"
proof -
  have m: "non_decreasing (map Time_s two_jump_trace)"
    by (simp add: two_jump_trace_def non_decreasing_def row_def)
  from events_in_order [of two_jump_trace default_thresholds, THEN conjunct1] m obtain js
    where "detect_jumps_offline two_jump_trace default_thresholds = Inr js"
      "sorted (map start_idx js)" "distinct js" "non_decreasing (map start_time js)"
    by blast
  moreover from this(1) have "length js = 2" by (auto simp: two_jump_trace_run)
  ultimately show ?thesis using m two_jump_trace_run by blast
qed

subsection \<open>C9: when the candidate's locals are reset\<close>

text \<open>
  C9, as stated, fails: a return to the ground assigns \<^verbatim>\<open>state\<close> only. After the
  candidate that started at index 1 is abandoned at index 2, \<^verbatim>\<open>jump_start_idx\<close> is
  still 1 and \<^verbatim>\<open>accumulated_yaw\<close> is 0.6, not the initial 0 and 0.0.
\<close>

theorem reset_on_ground_counterexample:
  "reaches default_thresholds abandon_trace 2
     \<lparr>state = potential_takeoff, jump_start_idx = 1, accumulated_yaw = Num 0, jumps = []\<rparr> \<and>
   loop_body default_thresholds abandon_trace 2
     \<lparr>state = potential_takeoff, jump_start_idx = 1, accumulated_yaw = Num 0, jumps = []\<rparr> =
   Inr \<lparr>state = ground, jump_start_idx = 1, accumulated_yaw = Num 0.6, jumps = []\<rparr> \<and>
   init_state = \<lparr>state = ground, jump_start_idx = 0, accumulated_yaw = Num 0, jumps = []\<rparr>"
  by (simp add: reaches_def eval_defs default_thresholds_def abandon_trace_def upt_small)

text \<open>
  C9, amended: an iteration outside the ground phase, whether or not it returns to the
  ground, keeps \<^verbatim>\<open>jump_start_idx\<close> and adds the yaw step to \<^verbatim>\<open>accumulated_yaw\<close>. The
  two are reset by the next take-off (lines 105 and 106): the start index becomes the
  current index and the yaw 0. An iteration in the ground phase does not read them: with
  any other values in their place it leads to the same locals on a take-off and changes
  nothing otherwise.
\<close>

theorem reset_on_takeoff:
  assumes "reaches cfg df i st" "i < length df"
  shows "\<exists>st'. loop_body cfg df i st = Inr st' \<and>
     (state st \<noteq> ground \<longrightarrow>
        jump_start_idx st' = jump_start_idx st \<and>
        accumulated_yaw st' =
          f_add (accumulated_yaw st) (f_mul (RotationRate_Z (df ! i)) (dt_at df i))) \<and>
     (state st = ground \<longrightarrow>
        (if f_gt (UserAccel_Mag (df ! i)) (Num (takeoff_threshold cfg))
         then state st' = potential_takeoff \<and> jump_start_idx st' = i \<and>
              accumulated_yaw st' = Num 0 \<and> jumps st' = jumps st
         else st' = st) \<and>
        (\<forall>n y. loop_body cfg df i (st\<lparr>jump_start_idx := n, accumulated_yaw := y\<rparr>) =
           (if f_gt (UserAccel_Mag (df ! i)) (Num (takeoff_threshold cfg)) then Inr st'
            else Inr (st\<lparr>jump_start_idx := n, accumulated_yaw := y\<rparr>))))"
proof (cases "state st")
  case ground
  have "loop_body cfg df i (st\<lparr>jump_start_idx := n, accumulated_yaw := y\<rparr>) =
     Inr (if f_gt (UserAccel_Mag (df ! i)) (Num (takeoff_threshold cfg))
          then st\<lparr>state := potential_takeoff, jump_start_idx := i, accumulated_yaw := Num 0\<rparr>
          else st\<lparr>jump_start_idx := n, accumulated_yaw := y\<rparr>)" for n y
    using loop_body_ground [of "st\<lparr>jump_start_idx := n, accumulated_yaw := y\<rparr>" i df cfg]
      ground assms(2) by simp
  then show ?thesis
    using loop_body_ground [OF ground assms(2), of cfg] ground by simp
next
  case potential_takeoff
  then show ?thesis
    using reaches_potential_takeoff [OF assms potential_takeoff]
    by (simp add: Let_def add_yaw_def)
next
  case airborne
  then show ?thesis
    using reaches_airborne [OF assms airborne]
    by (simp add: Let_def add_yaw_def)
qed

theorem reset_on_takeoff_witness:
  "reaches default_thresholds abandon_trace 2
     \<lparr>state = potential_takeoff, jump_start_idx = 1, accumulated_yaw = Num 0, jumps = []\<rparr> \<and>
   (\<exists>st'. loop_body default_thresholds abandon_trace 2
       \<lparr>state = potential_takeoff, jump_start_idx = 1, accumulated_yaw = Num 0, jumps = []\<rparr>
         = Inr st' \<and>
      jump_start_idx st' = 1 \<and> accumulated_yaw st' = Num 0.6) \<and>
   reaches default_thresholds abandon_trace 1 init_state \<and>
   (\<exists>st'. loop_body default_thresholds abandon_trace 1 init_state = Inr st' \<and>
      state st' = potential_takeoff \<and> jump_start_idx st' = 1 \<and> accumulated_yaw st' = Num 0)"
proof -
  let ?st = "\<lparr>state = potential_takeoff, jump_start_idx = 1, accumulated_yaw = Num 0, jumps = []\<rparr>"
  have r2: "reaches default_thresholds abandon_trace 2 ?st"
    by (simp add: reaches_def eval_defs default_thresholds_def abandon_trace_def upt_small)
  have r1: "reaches default_thresholds abandon_trace 1 init_state"
    by (simp add: reaches_def eval_defs default_thresholds_def abandon_trace_def upt_small)
  have l: "(2::nat) < length abandon_trace" "(1::nat) < length abandon_trace"
    by (simp_all add: abandon_trace_def)
  have v: "f_mul (RotationRate_Z (abandon_trace ! 2)) (dt_at abandon_trace 2) = Num 0.6"
    "f_gt (UserAccel_Mag (abandon_trace ! 1)) (Num (takeoff_threshold default_thresholds))"
    "state init_state = ground"
    by (simp_all add: abandon_trace_def dt_at_def default_thresholds_def init_state_def row_def)
  from reset_on_takeoff [OF r2 l(1)] v(1)
  have a: "\<exists>st'. loop_body default_thresholds abandon_trace 2 ?st = Inr st' \<and>
      jump_start_idx st' = 1 \<and> accumulated_yaw st' = Num 0.6"
    by auto
  from reset_on_takeoff [OF r1 l(2)] v(2,3)
  have b: "\<exists>st'. loop_body default_thresholds abandon_trace 1 init_state = Inr st' \<and>
      state st' = potential_takeoff \<and> jump_start_idx st' = 1 \<and> accumulated_yaw st' = Num 0"
    by auto
  from r2 r1 a b show ?thesis by blast
qed

section \<open>Runs from locals that agree\<close>





subsection \<open>C8: no state is carried from one run to the next\<close>



end
